theory Spec2Isabelle
  imports Main "HOL-Library.AList"
begin

section \<open>Python values and outcomes of calls\<close>

text \<open>
  The orchestrator and the providers handle dynamically typed Python values. The model
  keeps the shapes the code inspects: strings, dictionaries with string keys (insertion
  ordered, hence association lists), \<open>None\<close>, numbers, and exception objects.
  \<open>PyExc m\<close> is an instance of \<open>Exception\<close> whose \<open>str()\<close> is \<open>m\<close>, on which
  \<open>isinstance(result, Exception)\<close> is true. \<open>PyBaseExc m\<close> is an instance of
  \<open>BaseException\<close> that is no \<open>Exception\<close>, such as \<open>asyncio.CancelledError\<close>, on which
  that test is false.
\<close>

datatype pyval =
    PyNone
  | PyStr string
  | PyInt int
  | PyExc string
  | PyBaseExc string
  | PyDict "(string \<times> pyval) list"

type_synonym pydict = "(string \<times> pyval) list"

text \<open>
  A call into a backend library, or a \<open>try\<close> block, either returns a value or raises
  an \<open>Exception\<close>; \<open>Raises m\<close> carries the exception's \<open>str()\<close>.
\<close>

datatype 'a outcome = Returns 'a | Raises string

text \<open>\<open>isinstance(v, Exception)\<close> and \<open>str(e)\<close> of an exception object.\<close>

fun is_exception :: "pyval \<Rightarrow> bool" where
  "is_exception (PyExc m) = True"
| "is_exception v = False"

fun exc_str :: "pyval \<Rightarrow> string" where
  "exc_str (PyExc m) = m"
| "exc_str v = []"

text \<open>\<open>s.startswith(p)\<close> of Python's \<open>str\<close>.\<close>

definition startswith :: "string \<Rightarrow> string \<Rightarrow> bool" where
  "startswith s p = (take (length p) s = p)"

section \<open>Code translators\<close>

text \<open>
  \<open>TushareProvider._convert_to_ts_code\<close> (tushare\_provider.py) and
  \<open>RQDataProvider._convert_to_rq_code\<close> (rqdata\_provider.py): an \<open>if\<close>/\<open>elif\<close> chain on
  \<open>startswith\<close>, each branch appending a suffix to the unchanged code.
\<close>

definition convert_to_ts_code :: "string \<Rightarrow> string" where
  "convert_to_ts_code stock_code =
     (if startswith stock_code ''6'' then stock_code @ ''.SH''
      else if startswith stock_code ''0'' \<or> startswith stock_code ''3'' then stock_code @ ''.SZ''
      else if startswith stock_code ''8'' \<or> startswith stock_code ''4'' then stock_code @ ''.BJ''
      else stock_code @ ''.SH'')"

definition convert_to_rq_code :: "string \<Rightarrow> string" where
  "convert_to_rq_code stock_code =
     (if startswith stock_code ''6'' then stock_code @ ''.XSHG''
      else if startswith stock_code ''0'' \<or> startswith stock_code ''3'' then stock_code @ ''.XSHE''
      else if startswith stock_code ''8'' \<or> startswith stock_code ''4'' then stock_code @ ''.XSES''
      else stock_code @ ''.XSHG'')"

section \<open>Provider selector\<close>

text \<open>
  \<open>get_data_provider\<close> (data\_provider/\_\_init\_\_.py). Provider objects carry an
  object identity, so that "the identical instance" is a statement about values:
  every construction takes a fresh number from the process.
\<close>

datatype provider =
    TushareProvider nat string
  | RQDataProvider nat
  | AkshareProvider nat

datatype backend = Tushare | RQData | Akshare

fun backend_of :: "provider \<Rightarrow> backend" where
  "backend_of (TushareProvider i tok) = Tushare"
| "backend_of (RQDataProvider i) = RQData"
| "backend_of (AkshareProvider i) = Akshare"

text \<open>
  The calls the selector makes into the backend libraries: \<open>ts.pro_api(token)\<close> in
  \<open>TushareProvider.__init__\<close>, \<open>provider.pro.trade_cal(...)\<close>, and
  \<open>rqdatac.init(username, password)\<close> in \<open>RQDataProvider.__init__\<close>.
  \<open>AkshareProvider\<close> has no \<open>__init__\<close> and calls nothing.
\<close>

datatype remote_call = ProApi string | TradeCal string | RqInit string string

fun backend_of_call :: "remote_call \<Rightarrow> backend" where
  "backend_of_call (ProApi tok) = Tushare"
| "backend_of_call (TradeCal tok) = Tushare"
| "backend_of_call (RqInit u p) = RQData"

text \<open>\<open>config.get("data_provider_config")\<close>; the credentials are optional strings.\<close>

record data_provider_config =
  provider :: string
  tushare_token :: "string option"
  rqdata_username :: "string option"
  rqdata_password :: "string option"

text \<open>How the backend libraries answer at the moment of a call.\<close>

record remote =
  pro_api :: "string \<Rightarrow> unit outcome"
  trade_cal :: "string \<Rightarrow> unit outcome"
  rqdatac_init :: "string \<Rightarrow> string \<Rightarrow> unit outcome"

text \<open>
  The process-wide state: the module global \<open>_provider_instance\<close>, the allocator of
  object identities, what \<open>print\<close> has written, and the trace of library calls made.
\<close>

record process =
  provider_instance :: "provider option"
  next_id :: nat
  stdout :: "string list"
  calls :: "remote_call list"

definition py_print :: "string \<Rightarrow> process \<Rightarrow> process" where
  "py_print s w = w\<lparr>stdout := stdout w @ [s]\<rparr>"

definition record_call :: "remote_call \<Rightarrow> process \<Rightarrow> process" where
  "record_call c w = w\<lparr>calls := calls w @ [c]\<rparr>"

definition allocate :: "process \<Rightarrow> process" where
  "allocate w = w\<lparr>next_id := Suc (next_id w)\<rparr>"

text \<open>Truth value of an optional string: \<open>None\<close> and \<open>""\<close> are false.\<close>

fun truthy :: "string option \<Rightarrow> bool" where
  "truthy None = False"
| "truthy (Some s) = (s \<noteq> [])"

definition try_tushare ::
  "data_provider_config \<Rightarrow> remote \<Rightarrow> process \<Rightarrow> provider option \<times> process" where
  "try_tushare cfg ext w =
     (case tushare_token cfg of
        None \<Rightarrow> (None, w)
      | Some tok \<Rightarrow>
          if truthy (Some tok) \<and> tok \<noteq> ''invalid_token'' then
            (let w1 = record_call (ProApi tok) (py_print ''Attempting to use Tushare...'' w) in
             case pro_api ext tok of
               Raises e \<Rightarrow> (None, py_print (''Tushare is not available: '' @ e) w1)
             | Returns u \<Rightarrow>
                 (let p = TushareProvider (next_id w1) tok;
                      w2 = record_call (TradeCal tok) (allocate w1) in
                  case trade_cal ext tok of
                    Raises e \<Rightarrow> (None, py_print (''Tushare is not available: '' @ e) w2)
                  | Returns u \<Rightarrow> (Some p, py_print ''Tushare is available.'' w2)))
          else (None, w))"

definition try_rqdata ::
  "data_provider_config \<Rightarrow> remote \<Rightarrow> process \<Rightarrow> provider option \<times> process" where
  "try_rqdata cfg ext w =
     (case (rqdata_username cfg, rqdata_password cfg) of
        (Some usr, Some pwd) \<Rightarrow>
          if truthy (Some usr) \<and> truthy (Some pwd) then
            (let w1 = record_call (RqInit usr pwd) (py_print ''Attempting to use RQData...'' w) in
             case rqdatac_init ext usr pwd of
               Raises e \<Rightarrow> (None, py_print (''RQData is not available: '' @ e) w1)
             | Returns u \<Rightarrow>
                 (Some (RQDataProvider (next_id w1)),
                  py_print ''RQData is available.'' (allocate w1)))
          else (None, w)
      | _ \<Rightarrow> (None, w))"

definition try_akshare :: "process \<Rightarrow> provider option \<times> process" where
  "try_akshare w =
     (let w1 = py_print ''Falling back to Akshare.'' w in
      (Some (AkshareProvider (next_id w1)), allocate w1))"

text \<open>
  Python's \<open>a() or b()\<close> on provider objects (always true) and \<open>None\<close>: \<open>b\<close> runs only
  when \<open>a\<close> gave \<open>None\<close>, in the state \<open>a\<close> left.
\<close>

definition or_else ::
  "(process \<Rightarrow> provider option \<times> process) \<Rightarrow> (process \<Rightarrow> provider option \<times> process)
   \<Rightarrow> process \<Rightarrow> provider option \<times> process" where
  "or_else f g w = (case f w of (Some p, w') \<Rightarrow> (Some p, w') | (None, w') \<Rightarrow> g w')"

datatype error = ValueError string | RuntimeError string

text \<open>
  The assignment to \<open>_provider_instance\<close> of the chosen branch, followed by the check
  \<open>if not _provider_instance: raise RuntimeError(...)\<close>.
\<close>

definition store_and_check ::
  "string \<Rightarrow> provider option \<times> process \<Rightarrow> (error + provider) \<times> process" where
  "store_and_check provider_name r =
     (case r of (inst, w) \<Rightarrow>
        (let w' = w\<lparr>provider_instance := inst\<rparr> in
         case inst of
           None \<Rightarrow> (Inl (RuntimeError (''Could not initialize data provider: '' @ provider_name)), w')
         | Some p \<Rightarrow> (Inr p, w')))"

text \<open>The body of \<open>get_data_provider\<close> after the test of the cache.\<close>

definition resolve ::
  "data_provider_config \<Rightarrow> remote \<Rightarrow> process \<Rightarrow> (error + provider) \<times> process" where
  "resolve cfg ext w =
     (let provider_name = provider cfg in
      if provider_name = ''auto'' then
        store_and_check provider_name
          (or_else (try_tushare cfg ext) (or_else (try_rqdata cfg ext) try_akshare) w)
      else if provider_name = ''tushare'' then
        store_and_check provider_name (try_tushare cfg ext w)
      else if provider_name = ''rqdata'' then
        store_and_check provider_name (try_rqdata cfg ext w)
      else if provider_name = ''akshare'' then
        store_and_check provider_name (try_akshare w)
      else (Inl (ValueError (''Unknown data provider: '' @ provider_name)), w))"

definition get_data_provider ::
  "data_provider_config \<Rightarrow> remote \<Rightarrow> process \<Rightarrow> (error + provider) \<times> process" where
  "get_data_provider cfg ext w =
     (case provider_instance w of
        Some p \<Rightarrow> (Inr p, w)
      | None \<Rightarrow> resolve cfg ext w)"

text \<open>
  The availability conditions in the words of the specification: backend 1 needs a
  configured token other than the placeholder and a probe that succeeds (construction and
  the calendar call); backend 2 needs a user name and a password and a constructor that
  succeeds.
\<close>

definition tushare_usable :: "data_provider_config \<Rightarrow> remote \<Rightarrow> bool" where
  "tushare_usable cfg ext =
     (case tushare_token cfg of
        None \<Rightarrow> False
      | Some tok \<Rightarrow> tok \<noteq> [] \<and> tok \<noteq> ''invalid_token''
          \<and> pro_api ext tok = Returns () \<and> trade_cal ext tok = Returns ())"

definition rqdata_usable :: "data_provider_config \<Rightarrow> remote \<Rightarrow> bool" where
  "rqdata_usable cfg ext =
     (case rqdata_username cfg of
        None \<Rightarrow> False
      | Some usr \<Rightarrow>
          (case rqdata_password cfg of
             None \<Rightarrow> False
           | Some pwd \<Rightarrow> usr \<noteq> [] \<and> pwd \<noteq> [] \<and> rqdatac_init ext usr pwd = Returns ()))"

text \<open>The library calls made between two states of the process.\<close>

definition new_calls :: "process \<Rightarrow> process \<Rightarrow> remote_call list" where
  "new_calls w w' = drop (length (calls w)) (calls w')"

text \<open>Concrete configurations, backends and process states used to instantiate the theorems.\<close>

definition fresh_process :: process where
  "fresh_process = \<lparr>provider_instance = None, next_id = 0, stdout = [], calls = []\<rparr>"

definition full_config :: "string \<Rightarrow> data_provider_config" where
  "full_config mode = \<lparr>provider = mode, tushare_token = Some ''tok'',
     rqdata_username = Some ''user'', rqdata_password = Some ''pass''\<rparr>"

definition healthy :: remote where
  "healthy = \<lparr>pro_api = (\<lambda>tok. Returns ()), trade_cal = (\<lambda>tok. Returns ()),
     rqdatac_init = (\<lambda>usr pwd. Returns ())\<rparr>"

definition tushare_down :: remote where
  "tushare_down = \<lparr>pro_api = (\<lambda>tok. Returns ()), trade_cal = (\<lambda>tok. Raises ''timeout''),
     rqdatac_init = (\<lambda>usr pwd. Returns ())\<rparr>"

definition all_down :: remote where
  "all_down = \<lparr>pro_api = (\<lambda>tok. Raises ''bad token''), trade_cal = (\<lambda>tok. Raises ''timeout''),
     rqdatac_init = (\<lambda>usr pwd. Raises ''login failed'')\<rparr>"

definition akshare_cached :: process where
  "akshare_cached = \<lparr>provider_instance = Some (AkshareProvider 0), next_id = 1,
     stdout = [''Falling back to Akshare.''], calls = []\<rparr>"

definition tushare_failed :: process where
  "tushare_failed = \<lparr>provider_instance = None, next_id = 0,
     stdout = [''Attempting to use Tushare...'', ''Tushare is not available: bad token''],
     calls = [ProApi ''tok'']\<rparr>"

section \<open>Provider implementations\<close>

text \<open>
  A \<open>DataFrame\<close> is the list of its rows, a row the dictionary \<open>row.to_dict()\<close> gives;
  \<open>df.empty\<close> is the empty list. Each provider wraps calls into its backend library,
  which are parameters here: they return a table or raise.
\<close>

type_synonym row = "(string \<times> pyval) list"
type_synonym frame = "row list"

text \<open>Sequencing inside a \<open>try\<close> block: the first exception ends the block.\<close>

fun and_then :: "'a outcome \<Rightarrow> ('a \<Rightarrow> 'b outcome) \<Rightarrow> 'b outcome" where
  "and_then (Returns x) f = f x"
| "and_then (Raises e) f = Raises e"

text \<open>
  \<open>except Exception as e: print(f"...: {e}"); return None\<close> around a \<open>try\<close> block: the
  value returned and the lines printed.
\<close>

definition swallow :: "string \<Rightarrow> 'a option outcome \<Rightarrow> 'a option \<times> string list" where
  "swallow label r =
     (case r of
        Returns v \<Rightarrow> (v, [])
      | Raises e \<Rightarrow> (None, [label @ '': '' @ e]))"

text \<open>
  \<open>row[key]\<close> (the text of a \<open>KeyError\<close> is the key in quotes), \<open>d.update(other)\<close>,
  \<open>sep.join(xs)\<close>, \<open>s.replace(c, "")\<close> and \<open>s.split(c)[0]\<close>.
\<close>

definition getitem :: "row \<Rightarrow> string \<Rightarrow> pyval outcome" where
  "getitem r k =
     (case map_of r k of
        None \<Rightarrow> Raises ([CHR 0x27] @ k @ [CHR 0x27])
      | Some v \<Rightarrow> Returns v)"

definition dict_update :: "(string \<times> 'v) list \<Rightarrow> (string \<times> 'v) list \<Rightarrow> (string \<times> 'v) list" where
  "dict_update d other = fold (\<lambda>(k, v). AList.update k v) other d"

fun join :: "string \<Rightarrow> string list \<Rightarrow> string" where
  "join sep [] = []"
| "join sep [x] = x"
| "join sep (x # y # ys) = x @ sep @ join sep (y # ys)"

definition remove_char :: "char \<Rightarrow> string \<Rightarrow> string" where
  "remove_char c s = filter (\<lambda>x. x \<noteq> c) s"

definition before_first :: "char \<Rightarrow> string \<Rightarrow> string" where
  "before_first c s = takeWhile (\<lambda>x. x \<noteq> c) s"

text \<open>
  \<open>get_real_time_quotes\<close> takes one code or a list of codes:
  \<open>if not isinstance(stock_codes, list): stock_codes = [stock_codes]\<close>.
\<close>

datatype codes_arg = OneCode string | CodeList "string list"

fun as_list :: "codes_arg \<Rightarrow> string list" where
  "as_list (OneCode c) = [c]"
| "as_list (CodeList cs) = cs"

subsection \<open>tushare\<close>

record tushare_api =
  stock_basic :: "string \<Rightarrow> frame outcome"
  daily_basic :: "string \<Rightarrow> frame outcome"
  daily :: "string \<Rightarrow> string \<Rightarrow> string \<Rightarrow> frame outcome"

definition tushare_get_stock_basic_info ::
  "tushare_api \<Rightarrow> string \<Rightarrow> pydict option \<times> string list" where
  "tushare_get_stock_basic_info api stock_code =
     swallow (''Error fetching stock basic info from tushare for '' @ stock_code)
       (let ts_code = convert_to_ts_code stock_code in
        and_then (stock_basic api ts_code) (\<lambda>stock_basic_df.
          case stock_basic_df of
            [] \<Rightarrow> Returns None
          | stock_info # _ \<Rightarrow>
              and_then (daily_basic api ts_code) (\<lambda>daily_basic_df.
                case daily_basic_df of
                  [] \<Rightarrow> Returns (Some stock_info)
                | latest # _ \<Rightarrow> Returns (Some (dict_update stock_info latest)))))"

definition tushare_get_daily_market_data ::
  "tushare_api \<Rightarrow> string \<Rightarrow> string \<Rightarrow> string \<Rightarrow> frame option \<times> string list" where
  "tushare_get_daily_market_data api stock_code start_date end_date =
     swallow (''Error fetching daily market data from tushare for '' @ stock_code)
       (let ts_code = convert_to_ts_code stock_code in
        and_then (daily api ts_code (remove_char CHR ''-'' start_date)
                    (remove_char CHR ''-'' end_date))
          (\<lambda>df. Returns (Some df)))"

text \<open>
  The loop over \<open>df.iterrows()\<close>: \<open>row['ts_code']\<close> raises \<open>KeyError\<close> when the column
  is missing and \<open>.split\<close> raises \<open>AttributeError\<close> on a value that is no string.
\<close>

fun tushare_quotes_loop ::
  "frame \<Rightarrow> (pyval \<times> row) list \<Rightarrow> (pyval \<times> row) list outcome" where
  "tushare_quotes_loop [] quotes = Returns quotes"
| "tushare_quotes_loop (r # rs) quotes =
     and_then (getitem r ''ts_code'') (\<lambda>v.
       case v of
         PyStr ts_code \<Rightarrow>
           tushare_quotes_loop rs (AList.update (PyStr (before_first CHR ''.'' ts_code)) r quotes)
       | _ \<Rightarrow> Raises ''object has no attribute split'')"

definition tushare_get_real_time_quotes ::
  "tushare_api \<Rightarrow> codes_arg \<Rightarrow> (pyval \<times> row) list option \<times> string list" where
  "tushare_get_real_time_quotes api stock_codes =
     swallow ''Error fetching real-time quotes from tushare''
       (let ts_codes = map convert_to_ts_code (as_list stock_codes);
            ts_codes_str = join '','' ts_codes in
        and_then (daily_basic api ts_codes_str) (\<lambda>df.
          if df = [] then Returns None
          else and_then (tushare_quotes_loop df []) (\<lambda>quotes. Returns (Some quotes))))"

subsection \<open>RQData\<close>

text \<open>
  \<open>rqdatac.instruments\<close> gives an instrument object, of which the provider returns
  \<open>vars(instrument)\<close>, or \<open>None\<close>; \<open>rqdatac.get_price\<close> gives a table or \<open>None\<close>;
  \<open>rqdatac.current_snapshot\<close> gives a table indexed by the RQData code.
\<close>

record rqdata_api =
  instruments :: "string \<Rightarrow> pydict option outcome"
  get_price :: "string \<Rightarrow> string \<Rightarrow> string \<Rightarrow> frame option outcome"
  current_snapshot :: "string list \<Rightarrow> (string \<times> row) list outcome"

definition rqdata_get_stock_basic_info ::
  "rqdata_api \<Rightarrow> string \<Rightarrow> pydict option \<times> string list" where
  "rqdata_get_stock_basic_info api stock_code =
     swallow (''Error fetching stock basic info from RQData for '' @ stock_code)
       (let rq_code = convert_to_rq_code stock_code in
        and_then (instruments api rq_code) (\<lambda>instrument.
          case instrument of
            None \<Rightarrow> Returns None
          | Some attrs \<Rightarrow> Returns (Some attrs)))"

definition rqdata_get_daily_market_data ::
  "rqdata_api \<Rightarrow> string \<Rightarrow> string \<Rightarrow> string \<Rightarrow> frame option \<times> string list" where
  "rqdata_get_daily_market_data api stock_code start_date end_date =
     swallow (''Error fetching daily market data from RQData for '' @ stock_code)
       (let rq_code = convert_to_rq_code stock_code in
        and_then (get_price api rq_code start_date end_date) (\<lambda>df. Returns df))"

definition rqdata_get_real_time_quotes ::
  "rqdata_api \<Rightarrow> codes_arg \<Rightarrow> (pyval \<times> row) list option \<times> string list" where
  "rqdata_get_real_time_quotes api stock_codes =
     swallow ''Error fetching real-time quotes from RQData''
       (let rq_codes = map convert_to_rq_code (as_list stock_codes) in
        and_then (current_snapshot api rq_codes) (\<lambda>snapshot_df.
          if snapshot_df = [] then Returns None
          else Returns (Some
            (fold (\<lambda>(rq_code, r). AList.update (PyStr (before_first CHR ''.'' rq_code)) r)
               snapshot_df []))))"

subsection \<open>akshare\<close>

text \<open>
  \<open>ak.stock_individual_info_em\<close> gives a table of two columns, \<open>item\<close> and \<open>value\<close>,
  modelled as the list of its pairs. The quotes table is keyed by the column whose
  name is the two Chinese characters for "code", here in UTF-8.
\<close>

record akshare_api =
  stock_individual_info_em :: "string \<Rightarrow> (string \<times> pyval) list outcome"
  stock_zh_a_hist :: "string \<Rightarrow> string \<Rightarrow> string \<Rightarrow> frame outcome"
  stock_zh_a_spot_em :: "string \<Rightarrow> frame outcome"

definition code_column :: string where
  "code_column = map char_of [0xE4, 0xBB, 0xA3, 0xE7, 0xA0, 0x81 :: nat]"

definition akshare_get_stock_basic_info ::
  "akshare_api \<Rightarrow> string \<Rightarrow> pydict option \<times> string list" where
  "akshare_get_stock_basic_info api stock_code =
     swallow (''Error fetching stock basic info from akshare for '' @ stock_code)
       (and_then (stock_individual_info_em api stock_code) (\<lambda>stock_info_df.
          if stock_info_df = [] then Returns None
          else Returns (Some (dict_update [] stock_info_df))))"

definition akshare_get_daily_market_data ::
  "akshare_api \<Rightarrow> string \<Rightarrow> string \<Rightarrow> string \<Rightarrow> frame option \<times> string list" where
  "akshare_get_daily_market_data api stock_code start_date end_date =
     swallow (''Error fetching daily market data from akshare for '' @ stock_code)
       (and_then (stock_zh_a_hist api stock_code (remove_char CHR ''-'' start_date)
                    (remove_char CHR ''-'' end_date))
          (\<lambda>df. Returns (Some df)))"

text \<open>A dictionary cannot be a key: \<open>quotes[row[...]] = ...\<close> raises \<open>TypeError\<close> then.\<close>

fun akshare_quotes_loop ::
  "frame \<Rightarrow> (pyval \<times> row) list \<Rightarrow> (pyval \<times> row) list outcome" where
  "akshare_quotes_loop [] quotes = Returns quotes"
| "akshare_quotes_loop (r # rs) quotes =
     and_then (getitem r code_column) (\<lambda>v.
       case v of
         PyDict d \<Rightarrow> Raises ''unhashable type''
       | _ \<Rightarrow> akshare_quotes_loop rs (AList.update v r quotes))"

definition akshare_get_real_time_quotes ::
  "akshare_api \<Rightarrow> codes_arg \<Rightarrow> (pyval \<times> row) list option \<times> string list" where
  "akshare_get_real_time_quotes api stock_codes =
     swallow ''Error fetching real-time quotes from akshare''
       (let stock_codes_str = join '','' (as_list stock_codes) in
        and_then (stock_zh_a_spot_em api stock_codes_str) (\<lambda>df.
          if df = [] then Returns None
          else and_then (akshare_quotes_loop df []) (\<lambda>quotes. Returns (Some quotes))))"

text \<open>Backends that are down, and backends that answer with no data.\<close>

definition tushare_offline :: tushare_api where
  "tushare_offline = \<lparr>stock_basic = (\<lambda>c. Raises ''timeout''), daily_basic = (\<lambda>c. Raises ''timeout''),
     daily = (\<lambda>c s e. Raises ''timeout'')\<rparr>"

definition tushare_half_down :: tushare_api where
  "tushare_half_down = \<lparr>stock_basic = (\<lambda>c. Returns [[(''ts_code'', PyStr c)]]),
     daily_basic = (\<lambda>c. Raises ''quota exceeded''), daily = (\<lambda>c s e. Raises ''quota exceeded'')\<rparr>"

definition tushare_no_data :: tushare_api where
  "tushare_no_data = \<lparr>stock_basic = (\<lambda>c. Returns []), daily_basic = (\<lambda>c. Returns []),
     daily = (\<lambda>c s e. Returns [])\<rparr>"

definition rqdata_offline :: rqdata_api where
  "rqdata_offline = \<lparr>instruments = (\<lambda>c. Raises ''timeout''),
     get_price = (\<lambda>c s e. Raises ''timeout''), current_snapshot = (\<lambda>cs. Raises ''timeout'')\<rparr>"

definition rqdata_no_data :: rqdata_api where
  "rqdata_no_data = \<lparr>instruments = (\<lambda>c. Returns None),
     get_price = (\<lambda>c s e. Returns None), current_snapshot = (\<lambda>cs. Returns [])\<rparr>"

definition akshare_offline :: akshare_api where
  "akshare_offline = \<lparr>stock_individual_info_em = (\<lambda>c. Raises ''connection refused''),
     stock_zh_a_hist = (\<lambda>c s e. Raises ''connection refused''),
     stock_zh_a_spot_em = (\<lambda>c. Raises ''connection refused'')\<rparr>"

definition akshare_no_data :: akshare_api where
  "akshare_no_data = \<lparr>stock_individual_info_em = (\<lambda>c. Returns []),
     stock_zh_a_hist = (\<lambda>c s e. Returns []), stock_zh_a_spot_em = (\<lambda>c. Returns [])\<rparr>"

text \<open>Backends whose daily-bars call answers with a table of one row.\<close>

definition one_bar :: frame where
  "one_bar = [[(''close'', PyInt 1500), (''volume'', PyInt 32000)]]"

definition tushare_with_bars :: tushare_api where
  "tushare_with_bars = \<lparr>stock_basic = (\<lambda>c. Returns []), daily_basic = (\<lambda>c. Returns []),
     daily = (\<lambda>c s e. Returns one_bar)\<rparr>"

definition rqdata_with_bars :: rqdata_api where
  "rqdata_with_bars = \<lparr>instruments = (\<lambda>c. Returns None),
     get_price = (\<lambda>c s e. Returns (Some one_bar)), current_snapshot = (\<lambda>cs. Returns [])\<rparr>"

definition akshare_with_bars :: akshare_api where
  "akshare_with_bars = \<lparr>stock_individual_info_em = (\<lambda>c. Returns []),
     stock_zh_a_hist = (\<lambda>c s e. Returns one_bar), stock_zh_a_spot_em = (\<lambda>c. Returns [])\<rparr>"

section \<open>Orchestrator\<close>

text \<open>
  \<open>ResearchEnvironment\<close> (environment/research.py). \<open>analysis_mapping\<close> pairs each
  agent key with its result key, in the order of the dictionary literal; \<open>agents\<close> is
  the registry \<open>self.agents\<close>.

  A specialist agent is a black box: its \<open>run(stock_code)\<close> returns a value or raises,
  depending on the messages in its memory. An agent without a \<open>memory\<close> attribute has
  \<open>memory = None\<close>.

  What a task has settled to when \<open>gather\<close> is done: it returned a value, it raised an
  instance of \<open>Exception\<close> with the given \<open>str()\<close>, or it raised a \<open>BaseException\<close>
  that is no \<open>Exception\<close> and that asyncio keeps in the task, such as
  \<open>asyncio.CancelledError\<close>.
\<close>

datatype settled = Returned pyval | RaisedException string | RaisedOther string

datatype message = SystemMessage string pyval pyval

record agent =
  memory :: "message list option"
  behaviour :: "message list option \<Rightarrow> string \<Rightarrow> settled"

record environment =
  analysis_mapping :: "(string \<times> string) list"
  agents :: "string \<rightharpoonup> agent"
  results :: pydict

definition default_analysis_mapping :: "(string \<times> string) list" where
  "default_analysis_mapping =
     [(''sentiment_agent'', ''sentiment''),
      (''risk_control_agent'', ''risk''),
      (''hot_money_agent'', ''hot_money''),
      (''technical_analysis_agent'', ''technical''),
      (''chip_analysis_agent'', ''chip_analysis''),
      (''big_deal_analysis_agent'', ''big_deal'')]"

text \<open>
  What \<open>StockInfoRequest.execute\<close> hands back, as far as \<open>run\<close> reads it: the fields
  \<open>error\<close> and \<open>output\<close> (here \<open>output_val\<close>) of the tool result. \<open>execute\<close> catches
  every exception itself, so \<open>run\<close> always receives such a value; it is a parameter of
  the model.
\<close>

record tool_result =
  error :: "string option"
  output_val :: pydict

text \<open>
  \<open>d.get(key, default)\<close>, and the context message of lines 72--76 with its three
  interpolated values kept apart. The default for the trading day is the two Chinese
  characters for "unknown", here in UTF-8.
\<close>

definition dict_get :: "pydict \<Rightarrow> string \<Rightarrow> pyval \<Rightarrow> pyval" where
  "dict_get d k dflt = (case map_of d k of None \<Rightarrow> dflt | Some v \<Rightarrow> v)"

definition unknown_day :: string where
  "unknown_day = map char_of [0xE6, 0x9C, 0xAA, 0xE7, 0x9F, 0xA5 :: nat]"

definition stock_info_message :: "string \<Rightarrow> tool_result \<Rightarrow> message" where
  "stock_info_message stock_code basic_info_result =
     SystemMessage stock_code
       (dict_get (output_val basic_info_result) ''current_trading_day'' (PyStr unknown_day))
       (dict_get (output_val basic_info_result) ''basic_info'' (PyStr ''{}''))"

text \<open>
  Lines 78--84: the message is appended to the memory of every agent found under a key
  of the mapping that has a memory. \<open>self.get_agent\<close> belongs to the base class, which
  is not among the sources; it is taken to be the lookup in \<open>self.agents\<close>.
\<close>

fun add_context :: "message \<Rightarrow> string list \<Rightarrow> (string \<rightharpoonup> agent) \<Rightarrow> (string \<rightharpoonup> agent)" where
  "add_context msg [] ags = ags"
| "add_context msg (agent_key # ks) ags =
     add_context msg ks
       (case ags agent_key of
          None \<Rightarrow> ags
        | Some a \<Rightarrow>
            (case memory a of
               None \<Rightarrow> ags
             | Some ms \<Rightarrow> ags(agent_key \<mapsto> a\<lparr>memory := Some (ms @ [msg])\<rparr>)))"

text \<open>Lines 68--84: the registry after the context step.\<close>

definition seeded :: "environment \<Rightarrow> tool_result \<Rightarrow> string \<Rightarrow> (string \<rightharpoonup> agent)" where
  "seeded env basic_info_result stock_code =
     (if truthy (error basic_info_result) then agents env
      else add_context (stock_info_message stock_code basic_info_result)
             (map fst (analysis_mapping env)) (agents env))"

text \<open>
  Lines 94--96: one task per pair of the mapping whose agent key is registered, in the
  order of the mapping.
\<close>

fun dispatch :: "(string \<times> string) list \<Rightarrow> (string \<rightharpoonup> agent) \<Rightarrow> agent list" where
  "dispatch [] ags = []"
| "dispatch ((agent_key, result_key) # rest) ags =
     (case ags agent_key of
        None \<Rightarrow> dispatch rest ags
      | Some a \<Rightarrow> a # dispatch rest ags)"

text \<open>What the task of an agent settles to: \<open>await agent.run(stock_code)\<close>.\<close>

definition task :: "string \<Rightarrow> agent \<Rightarrow> settled" where
  "task stock_code a = behaviour a (memory a) stock_code"

text \<open>
  \<open>asyncio.gather(*tasks, return_exceptions=flag)\<close> once every task has settled: the
  results in the order of the tasks. With the flag set, an exception a task raised
  becomes the exception object in that position, whether or not it is an instance of
  \<open>Exception\<close>; without it the exception propagates. The source sets the flag.
\<close>

fun gather :: "bool \<Rightarrow> settled list \<Rightarrow> pyval list outcome" where
  "gather return_exceptions [] = Returns []"
| "gather return_exceptions (Returned v # rest) =
     and_then (gather return_exceptions rest) (\<lambda>vs. Returns (v # vs))"
| "gather return_exceptions (RaisedException e # rest) =
     (if return_exceptions
      then and_then (gather return_exceptions rest) (\<lambda>vs. Returns (PyExc e # vs))
      else Raises e)"
| "gather return_exceptions (RaisedOther e # rest) =
     (if return_exceptions
      then and_then (gather return_exceptions rest) (\<lambda>vs. Returns (PyBaseExc e # vs))
      else Raises e)"

text \<open>
  Lines 100--106: the loop over \<open>zip(self.analysis_mapping.items(), task_results)\<close>;
  \<open>formatted\<close> is what the body of the loop stores for one result.
\<close>

definition formatted :: "pyval \<Rightarrow> pyval" where
  "formatted result =
     (if is_exception result then PyStr (''Error: '' @ exc_str result) else result)"

fun collect :: "((string \<times> string) \<times> pyval) list \<Rightarrow> pydict \<Rightarrow> pydict" where
  "collect [] res = res"
| "collect (((agent_key, result_key), result) # rest) res =
     collect rest (AList.update result_key (formatted result) res)"

text \<open>
  The \<open>try\<close> block of \<open>run\<close>, lines 63--120: the dictionary returned and the environment
  with \<open>self.results\<close> stored. Calls to the logger are left out.
\<close>

definition run_try ::
  "environment \<Rightarrow> tool_result \<Rightarrow> string \<Rightarrow> (pydict \<times> environment) outcome" where
  "run_try env basic_info_result stock_code =
     (let ags = seeded env basic_info_result stock_code;
          tasks = dispatch (analysis_mapping env) ags in
      and_then (gather True (map (task stock_code) tasks)) (\<lambda>task_results.
        let res = collect (zip (analysis_mapping env) task_results) [] in
        if res = [] then
          Returns ([(''error'', PyStr ''No specialist agents completed successfully''),
                    (''stock_code'', PyStr stock_code)],
                   env\<lparr>agents := ags\<rparr>)
        else
          (let res' = (if \<not> truthy (error basic_info_result)
                       then AList.update ''basic_info'' (PyDict (output_val basic_info_result)) res
                       else res);
               final = AList.update ''stock_code'' (PyStr stock_code) res' in
           Returns (final, env\<lparr>agents := ags, results := final\<rparr>))))"

text \<open>\<open>run\<close> with its handler, lines 122--124.\<close>

definition run :: "environment \<Rightarrow> tool_result \<Rightarrow> string \<Rightarrow> pydict \<times> environment" where
  "run env basic_info_result stock_code =
     (case run_try env basic_info_result stock_code of
        Returns r \<Rightarrow> r
      | Raises e \<Rightarrow>
          ([(''error'', PyStr e), (''stock_code'', PyStr stock_code)],
           env\<lparr>agents := seeded env basic_info_result stock_code\<rparr>))"

text \<open>
  The outcome of the task that \<open>run\<close> starts for an agent key: \<open>None\<close> when no agent is
  registered under the key, so that no task is started.
\<close>

definition task_of :: "environment \<Rightarrow> tool_result \<Rightarrow> string \<Rightarrow> string \<Rightarrow> settled option" where
  "task_of env basic_info_result stock_code agent_key =
     map_option (task stock_code) (seeded env basic_info_result stock_code agent_key)"


section \<open>Admission gate\<close>

text \<open>
  \<open>run_with_semaphore\<close>, lines 87--92, under asyncio's cooperative scheduling. Each
  task is waiting at \<open>async with semaphore\<close>, running inside \<open>agent.run\<close>, or done. The
  semaphore starts with 3 permits; entering takes one and is possible only while one is
  left, leaving (by return or by exception) gives it back. The scheduler may fire these
  events in any order; \<open>fire\<close> gives \<open>None\<close> for an event that cannot happen.
\<close>

datatype task_state = Waiting | Running | Done

record gate =
  permits :: nat
  states :: "task_state list"

datatype event = Enter nat | Leave nat

fun fire :: "event \<Rightarrow> gate \<Rightarrow> gate option" where
  "fire (Enter i) g =
     (if i < length (states g) \<and> states g ! i = Waiting \<and> 0 < permits g
      then Some (g\<lparr>permits := permits g - 1, states := (states g)[i := Running]\<rparr>)
      else None)"
| "fire (Leave i) g =
     (if i < length (states g) \<and> states g ! i = Running
      then Some (g\<lparr>permits := permits g + 1, states := (states g)[i := Done]\<rparr>)
      else None)"

fun fire_all :: "event list \<Rightarrow> gate \<Rightarrow> gate option" where
  "fire_all [] g = Some g"
| "fire_all (e # es) g = (case fire e g of None \<Rightarrow> None | Some g' \<Rightarrow> fire_all es g')"

text \<open>The gate when \<open>gather\<close> starts: \<open>asyncio.Semaphore(3)\<close> and every task waiting.\<close>

definition launch :: "environment \<Rightarrow> tool_result \<Rightarrow> string \<Rightarrow> gate" where
  "launch env basic_info_result stock_code =
     \<lparr>permits = 3,
      states = map (\<lambda>a. Waiting)
                 (dispatch (analysis_mapping env) (seeded env basic_info_result stock_code))\<rparr>"

text \<open>The number of tasks inside their specialist's \<open>run\<close>.\<close>

definition live :: "gate \<Rightarrow> nat" where
  "live g = length (filter (\<lambda>s. s = Running) (states g))"

text \<open>
  Concrete specialists, registries and tool results: \<open>analyst out\<close> is an agent with
  an empty memory whose \<open>run\<close> settles to \<open>out\<close>.
\<close>

definition analyst :: "settled \<Rightarrow> agent" where
  "analyst out = \<lparr>memory = Some [], behaviour = (\<lambda>ms stock_code. out)\<rparr>"

definition research_environment :: "(string \<times> agent) list \<Rightarrow> environment" where
  "research_environment registered =
     \<lparr>analysis_mapping = default_analysis_mapping, agents = map_of registered, results = []\<rparr>"

definition fetch_failed :: tool_result where
  "fetch_failed =
     \<lparr>error = Some ''Failed to fetch stock basic info from any provider.'', output_val = []\<rparr>"

definition fetch_ok :: tool_result where
  "fetch_ok =
     \<lparr>error = None,
      output_val = [(''current_trading_day'', PyStr ''2025-01-02''),
                    (''basic_info'', PyDict [(''name'', PyStr ''Moutai'')])]\<rparr>"

definition only_risk :: environment where
  "only_risk =
     research_environment [(''risk_control_agent'', analyst (Returned (PyStr ''risk report'')))]"

definition six_specialists :: environment where
  "six_specialists = research_environment
     [(''sentiment_agent'', analyst (Returned (PyStr ''calm''))),
      (''risk_control_agent'', analyst (RaisedException ''rate limit'')),
      (''hot_money_agent'', analyst (Returned (PyStr ''inflow''))),
      (''technical_analysis_agent'', analyst (RaisedException ''no bars'')),
      (''chip_analysis_agent'', analyst (Returned (PyStr ''concentrated''))),
      (''big_deal_analysis_agent'', analyst (Returned (PyInt 12)))]"


section \<open>Properties of the code translators\<close>

lemma startswith_single [simp]: "startswith (c # cs) [d] = (c = d)"
  by (simp add: startswith_def)

lemma startswith_empty_code [simp]: "startswith [] [d] = False"
  by (simp add: startswith_def)

text \<open>
  C5. Both translators are functions of the code's leading character alone, as far as
  the suffix goes: a leading \<open>6\<close> gives the Shanghai suffix, \<open>0\<close> or \<open>3\<close> the Shenzhen
  suffix, \<open>8\<close> or \<open>4\<close> the Beijing suffix, and every other leading character falls back
  to the Shanghai suffix; the code itself is kept unchanged in front of the suffix.
\<close>

theorem convert_code_by_leading_digit:
  "convert_to_ts_code (c # cs) = (c # cs) @
     (if c = CHR ''6'' then ''.SH''
      else if c = CHR ''0'' \<or> c = CHR ''3'' then ''.SZ''
      else if c = CHR ''8'' \<or> c = CHR ''4'' then ''.BJ''
      else ''.SH'')
   \<and> convert_to_rq_code (c # cs) = (c # cs) @
     (if c = CHR ''6'' then ''.XSHG''
      else if c = CHR ''0'' \<or> c = CHR ''3'' then ''.XSHE''
      else if c = CHR ''8'' \<or> c = CHR ''4'' then ''.XSES''
      else ''.XSHG'')"
  by (simp add: convert_to_ts_code_def convert_to_rq_code_def)

text \<open>The four codes the specification lists, in both translators.\<close>

lemma convert_code_examples:
  "convert_to_ts_code ''600519'' = ''600519.SH''"
  "convert_to_ts_code ''000001'' = ''000001.SZ''"
  "convert_to_ts_code ''430001'' = ''430001.BJ''"
  "convert_to_ts_code ''999999'' = ''999999.SH''"
  "convert_to_rq_code ''600519'' = ''600519.XSHG''"
  "convert_to_rq_code ''000001'' = ''000001.XSHE''"
  "convert_to_rq_code ''430001'' = ''430001.XSES''"
  "convert_to_rq_code ''999999'' = ''999999.XSHG''"
  by (simp_all add: convert_to_ts_code_def convert_to_rq_code_def)

section \<open>Properties of the provider implementations\<close>

lemma swallow_Raises [simp]: "fst (swallow label (Raises e)) = None"
  by (simp add: swallow_def)

lemma swallow_Returns [simp]: "swallow label (Returns v) = (v, [])"
  by (simp add: swallow_def)

lemmas fetch_defs =
  tushare_get_stock_basic_info_def tushare_get_daily_market_data_def
  tushare_get_real_time_quotes_def rqdata_get_stock_basic_info_def
  rqdata_get_daily_market_data_def rqdata_get_real_time_quotes_def
  akshare_get_stock_basic_info_def akshare_get_daily_market_data_def
  akshare_get_real_time_quotes_def

text \<open>
  C6, as the code has it. In each of the three providers and each of the three fetch
  operations, a library call that raises makes the operation return \<open>None\<close>: the
  exception stops at the operation. For basic info and real-time quotes, \<open>None\<close> is also
  what the operation returns when the library answers with an empty table (or, for
  RQData's instrument lookup, with \<open>None\<close>), so there a failure and "no data" look the
  same to the caller. For daily bars, whatever the library call returned is passed on
  unchanged, empty or not: the table itself for tushare and akshare, the table or
  \<open>None\<close> for RQData.
\<close>

theorem fetch_failure_swallowed:
  "(stock_basic ts (convert_to_ts_code code) = Raises e \<longrightarrow>
      fst (tushare_get_stock_basic_info ts code) = None)
   \<and> (stock_basic ts (convert_to_ts_code code) = Returns (r # rs)
        \<and> daily_basic ts (convert_to_ts_code code) = Raises e \<longrightarrow>
      fst (tushare_get_stock_basic_info ts code) = None)
   \<and> (daily ts (convert_to_ts_code code) (remove_char CHR ''-'' d1) (remove_char CHR ''-'' d2)
        = Raises e \<longrightarrow>
      fst (tushare_get_daily_market_data ts code d1 d2) = None)
   \<and> (daily_basic ts (join '','' (map convert_to_ts_code (as_list codes))) = Raises e \<longrightarrow>
      fst (tushare_get_real_time_quotes ts codes) = None)
   \<and> (instruments rq (convert_to_rq_code code) = Raises e \<longrightarrow>
      fst (rqdata_get_stock_basic_info rq code) = None)
   \<and> (get_price rq (convert_to_rq_code code) d1 d2 = Raises e \<longrightarrow>
      fst (rqdata_get_daily_market_data rq code d1 d2) = None)
   \<and> (current_snapshot rq (map convert_to_rq_code (as_list codes)) = Raises e \<longrightarrow>
      fst (rqdata_get_real_time_quotes rq codes) = None)
   \<and> (stock_individual_info_em ak code = Raises e \<longrightarrow>
      fst (akshare_get_stock_basic_info ak code) = None)
   \<and> (stock_zh_a_hist ak code (remove_char CHR ''-'' d1) (remove_char CHR ''-'' d2) = Raises e \<longrightarrow>
      fst (akshare_get_daily_market_data ak code d1 d2) = None)
   \<and> (stock_zh_a_spot_em ak (join '','' (as_list codes)) = Raises e \<longrightarrow>
      fst (akshare_get_real_time_quotes ak codes) = None)
   \<and> (stock_basic ts (convert_to_ts_code code) = Returns [] \<longrightarrow>
      fst (tushare_get_stock_basic_info ts code) = None)
   \<and> (daily_basic ts (join '','' (map convert_to_ts_code (as_list codes))) = Returns [] \<longrightarrow>
      fst (tushare_get_real_time_quotes ts codes) = None)
   \<and> (instruments rq (convert_to_rq_code code) = Returns None \<longrightarrow>
      fst (rqdata_get_stock_basic_info rq code) = None)
   \<and> (current_snapshot rq (map convert_to_rq_code (as_list codes)) = Returns [] \<longrightarrow>
      fst (rqdata_get_real_time_quotes rq codes) = None)
   \<and> (stock_individual_info_em ak code = Returns [] \<longrightarrow>
      fst (akshare_get_stock_basic_info ak code) = None)
   \<and> (stock_zh_a_spot_em ak (join '','' (as_list codes)) = Returns [] \<longrightarrow>
      fst (akshare_get_real_time_quotes ak codes) = None)
   \<and> (daily ts (convert_to_ts_code code) (remove_char CHR ''-'' d1) (remove_char CHR ''-'' d2)
        = Returns df \<longrightarrow>
      tushare_get_daily_market_data ts code d1 d2 = (Some df, []))
   \<and> (get_price rq (convert_to_rq_code code) d1 d2 = Returns odf \<longrightarrow>
      rqdata_get_daily_market_data rq code d1 d2 = (odf, []))
   \<and> (stock_zh_a_hist ak code (remove_char CHR ''-'' d1) (remove_char CHR ''-'' d2)
        = Returns df \<longrightarrow>
      akshare_get_daily_market_data ak code d1 d2 = (Some df, []))"
  by (simp add: fetch_defs Let_def)

theorem fetch_failure_swallowed_witness:
  "fst (tushare_get_stock_basic_info tushare_offline ''600519'') = None
   \<and> fst (tushare_get_stock_basic_info tushare_half_down ''600519'') = None
   \<and> fst (tushare_get_daily_market_data tushare_offline ''600519'' ''2025-01-01'' ''2025-01-31'') = None
   \<and> fst (tushare_get_real_time_quotes tushare_offline (CodeList [''600519'', ''000001''])) = None
   \<and> fst (rqdata_get_stock_basic_info rqdata_offline ''600519'') = None
   \<and> fst (rqdata_get_daily_market_data rqdata_offline ''600519'' ''2025-01-01'' ''2025-01-31'') = None
   \<and> fst (rqdata_get_real_time_quotes rqdata_offline (OneCode ''600519'')) = None
   \<and> fst (akshare_get_stock_basic_info akshare_offline ''600519'') = None
   \<and> fst (akshare_get_daily_market_data akshare_offline ''600519'' ''2025-01-01'' ''2025-01-31'') = None
   \<and> fst (akshare_get_real_time_quotes akshare_offline (OneCode ''600519'')) = None
   \<and> fst (tushare_get_stock_basic_info tushare_no_data ''600519'') = None
   \<and> fst (tushare_get_real_time_quotes tushare_no_data (CodeList [''600519'', ''000001''])) = None
   \<and> fst (rqdata_get_stock_basic_info rqdata_no_data ''600519'') = None
   \<and> fst (rqdata_get_real_time_quotes rqdata_no_data (OneCode ''600519'')) = None
   \<and> fst (akshare_get_stock_basic_info akshare_no_data ''600519'') = None
   \<and> fst (akshare_get_real_time_quotes akshare_no_data (OneCode ''600519'')) = None
   \<and> tushare_get_daily_market_data tushare_with_bars ''600519'' ''2025-01-01'' ''2025-01-31''
       = (Some one_bar, [])
   \<and> rqdata_get_daily_market_data rqdata_with_bars ''600519'' ''2025-01-01'' ''2025-01-31''
       = (Some one_bar, [])
   \<and> rqdata_get_daily_market_data rqdata_no_data ''600519'' ''2025-01-01'' ''2025-01-31''
       = (None, [])
   \<and> akshare_get_daily_market_data akshare_with_bars ''600519'' ''2025-01-01'' ''2025-01-31''
       = (Some one_bar, [])
   \<and> akshare_get_daily_market_data akshare_no_data ''600519'' ''2025-01-01'' ''2025-01-31''
       = (Some [], [])"
  using
    fetch_failure_swallowed [of tushare_offline "''600519''" "''timeout''" _ _
      "''2025-01-01''" "''2025-01-31''" "CodeList [''600519'', ''000001'']"
      rqdata_offline akshare_offline]
    fetch_failure_swallowed [of tushare_half_down "''600519''" "''quota exceeded''"
      "[(''ts_code'', PyStr ''600519.SH'')]" "[]"]
    fetch_failure_swallowed [of _ "''600519''" "''timeout''" _ _
      "''2025-01-01''" "''2025-01-31''" "OneCode ''600519''" rqdata_offline]
    fetch_failure_swallowed [of _ "''600519''" "''connection refused''" _ _
      "''2025-01-01''" "''2025-01-31''" "OneCode ''600519''" _ akshare_offline]
    fetch_failure_swallowed [of tushare_no_data "''600519''" _ _ _ _ _
      "CodeList [''600519'', ''000001'']" rqdata_no_data akshare_no_data]
    fetch_failure_swallowed [of _ "''600519''" _ _ _ _ _
      "OneCode ''600519''" rqdata_no_data akshare_no_data]
    fetch_failure_swallowed [of tushare_with_bars "''600519''" _ _ _
      "''2025-01-01''" "''2025-01-31''" _ rqdata_with_bars akshare_with_bars one_bar
      "Some one_bar"]
    fetch_failure_swallowed [of _ "''600519''" _ _ _
      "''2025-01-01''" "''2025-01-31''" _ rqdata_no_data akshare_no_data "[]" None]
  by (simp add: tushare_offline_def tushare_half_down_def tushare_no_data_def rqdata_offline_def
      rqdata_no_data_def akshare_offline_def akshare_no_data_def tushare_with_bars_def
      rqdata_with_bars_def akshare_with_bars_def convert_to_ts_code_def)

text \<open>
  The claim as stated fails for daily bars: when akshare answers with an empty table
  (no data) the caller receives that empty table, and when it raises the caller
  receives \<open>None\<close>, so the two are told apart.
\<close>

theorem failure_and_no_data_distinguished:
  "fst (akshare_get_daily_market_data akshare_no_data ''600519'' ''2025-01-01'' ''2025-01-31'')
     = Some []
   \<and> fst (akshare_get_daily_market_data akshare_offline ''600519'' ''2025-01-01'' ''2025-01-31'')
     = None
   \<and> fst (akshare_get_daily_market_data akshare_no_data ''600519'' ''2025-01-01'' ''2025-01-31'')
     \<noteq> fst (akshare_get_daily_market_data akshare_offline ''600519'' ''2025-01-01'' ''2025-01-31'')"
  by (simp add: akshare_get_daily_market_data_def akshare_no_data_def akshare_offline_def)

section \<open>Properties of the provider selector\<close>

lemma try_tushare_usable:
  "tushare_usable cfg ext \<Longrightarrow> \<exists>i tok. fst (try_tushare cfg ext w) = Some (TushareProvider i tok)"
  by (auto simp: try_tushare_def tushare_usable_def Let_def split: option.splits)

lemma try_tushare_unusable:
  "\<not> tushare_usable cfg ext \<Longrightarrow> fst (try_tushare cfg ext w) = None"
  by (auto simp: try_tushare_def tushare_usable_def Let_def split: option.splits outcome.splits)

lemma try_rqdata_usable:
  "rqdata_usable cfg ext \<Longrightarrow> \<exists>i. fst (try_rqdata cfg ext w) = Some (RQDataProvider i)"
  by (auto simp: try_rqdata_def rqdata_usable_def Let_def split: option.splits)

lemma try_rqdata_unusable:
  "\<not> rqdata_usable cfg ext \<Longrightarrow> fst (try_rqdata cfg ext w) = None"
  by (auto simp: try_rqdata_def rqdata_usable_def Let_def split: option.splits outcome.splits)

lemma try_tushare_calls:
  "\<exists>cs. calls (snd (try_tushare cfg ext w)) = calls w @ cs \<and> list_all (\<lambda>c. backend_of_call c = Tushare) cs"
  by (simp add: try_tushare_def Let_def py_print_def record_call_def allocate_def
      split: option.splits outcome.splits)

lemma try_rqdata_calls:
  "\<exists>cs. calls (snd (try_rqdata cfg ext w)) = calls w @ cs \<and> list_all (\<lambda>c. backend_of_call c = RQData) cs"
  by (simp add: try_rqdata_def Let_def py_print_def record_call_def allocate_def
      split: option.splits outcome.splits prod.splits)

lemma try_akshare_eq:
  "try_akshare w = (Some (AkshareProvider (next_id w)),
      w\<lparr>stdout := stdout w @ [''Falling back to Akshare.''], next_id := Suc (next_id w)\<rparr>)"
  by (simp add: try_akshare_def Let_def py_print_def allocate_def)

lemma store_and_check_Some:
  "store_and_check n (Some p, w) = (Inr p, w\<lparr>provider_instance := Some p\<rparr>)"
  by (simp add: store_and_check_def)

lemma store_and_check_None:
  "store_and_check n (None, w) =
     (Inl (RuntimeError (''Could not initialize data provider: '' @ n)), w\<lparr>provider_instance := None\<rparr>)"
  by (simp add: store_and_check_def)

lemma store_and_check_result:
  "store_and_check n x = (r, w') \<Longrightarrow>
     (\<forall>e. r = Inl e \<longrightarrow> provider_instance w' = None)
   \<and> (\<forall>p. r = Inr p \<longrightarrow> provider_instance w' = Some p)"
  by (cases x) (auto simp: store_and_check_def Let_def split: option.splits)

lemma resolve_result:
  assumes "provider_instance w = None" and "resolve cfg ext w = (r, w')"
  shows "(\<forall>e. r = Inl e \<longrightarrow> provider_instance w' = None)
       \<and> (\<forall>p. r = Inr p \<longrightarrow> provider_instance w' = Some p)"
  using assms
  by (auto simp: resolve_def Let_def split: if_splits dest: store_and_check_result)

lemma get_data_provider_result:
  assumes "get_data_provider cfg ext w = (r, w')"
  shows "(\<forall>e. r = Inl e \<longrightarrow> provider_instance w' = None)
       \<and> (\<forall>p. r = Inr p \<longrightarrow> provider_instance w' = Some p)"
proof (cases "provider_instance w")
  case None
  then show ?thesis using assms resolve_result [of w cfg ext r w']
    by (simp add: get_data_provider_def)
next
  case (Some q)
  then show ?thesis using assms by (auto simp: get_data_provider_def)
qed

lemmas demo_defs = fresh_process_def full_config_def healthy_def tushare_down_def all_down_def
  tushare_usable_def rqdata_usable_def

text \<open>
  C3. In \<open>auto\<close> mode, a call that finds no cached provider returns an instance and
  caches it, and the backend of that instance follows the strict priority: tushare when
  its token is configured, is not the placeholder, and construction and the calendar
  probe succeed; otherwise rqdata when user name and password are configured and its
  constructor succeeds; otherwise akshare, whose construction needs no credential and
  cannot fail. When tushare is usable no other backend's library is called.
\<close>

theorem auto_mode_priority:
  assumes auto: "provider cfg = ''auto''" and fresh: "provider_instance w = None"
  shows "\<exists>p w'. get_data_provider cfg ext w = (Inr p, w') \<and> provider_instance w' = Some p
     \<and> backend_of p = (if tushare_usable cfg ext then Tushare
                        else if rqdata_usable cfg ext then RQData else Akshare)
     \<and> (tushare_usable cfg ext \<longrightarrow> list_all (\<lambda>c. backend_of_call c = Tushare) (new_calls w w'))"
proof -
  obtain r1 w1 where t: "try_tushare cfg ext w = (r1, w1)" by (cases "try_tushare cfg ext w")
  obtain cs1 where c1: "calls w1 = calls w @ cs1" "list_all (\<lambda>c. backend_of_call c = Tushare) cs1"
    using try_tushare_calls [of cfg ext w] t by auto
  show ?thesis
  proof (cases "tushare_usable cfg ext")
    case True
    then obtain i tok where r1: "r1 = Some (TushareProvider i tok)"
      using try_tushare_usable [of cfg ext w] t by auto
    have "get_data_provider cfg ext w =
        (Inr (TushareProvider i tok), w1\<lparr>provider_instance := Some (TushareProvider i tok)\<rparr>)"
      using auto fresh t r1
      by (simp add: get_data_provider_def resolve_def or_else_def store_and_check_Some)
    moreover have "new_calls w (w1\<lparr>provider_instance := Some (TushareProvider i tok)\<rparr>) = cs1"
      using c1 by (simp add: new_calls_def)
    ultimately show ?thesis using True c1 by simp
  next
    case noT: False
    then have r1: "r1 = None" using try_tushare_unusable [of cfg ext w] t by simp
    obtain r2 w2 where q: "try_rqdata cfg ext w1 = (r2, w2)" by (cases "try_rqdata cfg ext w1")
    show ?thesis
    proof (cases "rqdata_usable cfg ext")
      case True
      then obtain i where r2: "r2 = Some (RQDataProvider i)"
        using try_rqdata_usable [of cfg ext w1] q by auto
      have "get_data_provider cfg ext w =
          (Inr (RQDataProvider i), w2\<lparr>provider_instance := Some (RQDataProvider i)\<rparr>)"
        using auto fresh t r1 q r2
        by (simp add: get_data_provider_def resolve_def or_else_def store_and_check_Some)
      then show ?thesis using True noT by simp
    next
      case False
      then have r2: "r2 = None" using try_rqdata_unusable [of cfg ext w1] q by simp
      have "get_data_provider cfg ext w =
          (Inr (AkshareProvider (next_id w2)),
           (snd (try_akshare w2))\<lparr>provider_instance := Some (AkshareProvider (next_id w2))\<rparr>)"
        using auto fresh t r1 q r2
        by (simp add: get_data_provider_def resolve_def or_else_def store_and_check_Some
            try_akshare_eq)
      then show ?thesis using False noT by simp
    qed
  qed
qed

theorem auto_mode_priority_witness:
  "provider (full_config ''auto'') = ''auto'' \<and> provider_instance fresh_process = None
   \<and> (\<exists>p w'. get_data_provider (full_config ''auto'') healthy fresh_process = (Inr p, w')
         \<and> backend_of p = Tushare)
   \<and> (\<exists>p w'. get_data_provider (full_config ''auto'') tushare_down fresh_process = (Inr p, w')
         \<and> backend_of p = RQData)
   \<and> (\<exists>p w'. get_data_provider (full_config ''auto'') all_down fresh_process = (Inr p, w')
         \<and> backend_of p = Akshare)"
proof -
  have a: "provider (full_config ''auto'') = ''auto''" by (simp add: full_config_def)
  have f: "provider_instance fresh_process = None" by (simp add: fresh_process_def)
  have u1: "tushare_usable (full_config ''auto'') healthy" by (simp add: demo_defs)
  have u2: "\<not> tushare_usable (full_config ''auto'') tushare_down"
    "rqdata_usable (full_config ''auto'') tushare_down" by (simp_all add: demo_defs)
  have u3: "\<not> tushare_usable (full_config ''auto'') all_down"
    "\<not> rqdata_usable (full_config ''auto'') all_down" by (simp_all add: demo_defs)
  show ?thesis
    using a f auto_mode_priority [OF a f, of healthy] auto_mode_priority [OF a f, of tushare_down]
      auto_mode_priority [OF a f, of all_down] u1 u2 u3
    by auto
qed

text \<open>
  C7. In an explicit mode, a call that finds no cached provider tries that one backend
  only: all library calls it makes belong to that backend, and when the backend is not
  usable the call fails with \<open>RuntimeError\<close> (the configuration error) instead of
  falling back. A mode that is none of \<open>auto\<close>, \<open>tushare\<close>, \<open>rqdata\<close>, \<open>akshare\<close> fails
  with \<open>ValueError\<close> (the validation error) and leaves the process state untouched:
  nothing was printed, constructed or called.
\<close>

theorem explicit_mode_no_fallback:
  assumes fresh: "provider_instance w = None"
  shows "(provider cfg = ''tushare'' \<longrightarrow>
           (\<exists>r w'. get_data_provider cfg ext w = (r, w')
              \<and> (tushare_usable cfg ext \<longrightarrow> (\<exists>p. r = Inr p \<and> backend_of p = Tushare))
              \<and> (\<not> tushare_usable cfg ext \<longrightarrow>
                    r = Inl (RuntimeError ''Could not initialize data provider: tushare''))
              \<and> list_all (\<lambda>c. backend_of_call c = Tushare) (new_calls w w')))
       \<and> (provider cfg = ''rqdata'' \<longrightarrow>
           (\<exists>r w'. get_data_provider cfg ext w = (r, w')
              \<and> (rqdata_usable cfg ext \<longrightarrow> (\<exists>p. r = Inr p \<and> backend_of p = RQData))
              \<and> (\<not> rqdata_usable cfg ext \<longrightarrow>
                    r = Inl (RuntimeError ''Could not initialize data provider: rqdata''))
              \<and> list_all (\<lambda>c. backend_of_call c = RQData) (new_calls w w')))
       \<and> (provider cfg = ''akshare'' \<longrightarrow>
           (\<exists>p w'. get_data_provider cfg ext w = (Inr p, w')
              \<and> backend_of p = Akshare \<and> new_calls w w' = []))
       \<and> (provider cfg \<noteq> ''auto'' \<and> provider cfg \<noteq> ''tushare'' \<and> provider cfg \<noteq> ''rqdata''
            \<and> provider cfg \<noteq> ''akshare'' \<longrightarrow>
           get_data_provider cfg ext w =
             (Inl (ValueError (''Unknown data provider: '' @ provider cfg)), w))"
proof (intro conjI impI)
  assume m: "provider cfg = ''tushare''"
  obtain r1 w1 where t: "try_tushare cfg ext w = (r1, w1)" by (cases "try_tushare cfg ext w")
  obtain cs where cs: "calls w1 = calls w @ cs" "list_all (\<lambda>c. backend_of_call c = Tushare) cs"
    using try_tushare_calls [of cfg ext w] t by auto
  have g: "get_data_provider cfg ext w = store_and_check ''tushare'' (r1, w1)"
    using m fresh t by (simp add: get_data_provider_def resolve_def)
  have n: "new_calls w (w1\<lparr>provider_instance := r1\<rparr>) = cs"
    using cs by (simp add: new_calls_def)
  show "\<exists>r w'. get_data_provider cfg ext w = (r, w')
      \<and> (tushare_usable cfg ext \<longrightarrow> (\<exists>p. r = Inr p \<and> backend_of p = Tushare))
      \<and> (\<not> tushare_usable cfg ext \<longrightarrow>
            r = Inl (RuntimeError ''Could not initialize data provider: tushare''))
      \<and> list_all (\<lambda>c. backend_of_call c = Tushare) (new_calls w w')"
  proof (cases "tushare_usable cfg ext")
    case True
    then obtain i tok where "r1 = Some (TushareProvider i tok)"
      using try_tushare_usable [of cfg ext w] t by auto
    then show ?thesis using True g n cs by (simp add: store_and_check_Some)
  next
    case False
    then have "r1 = None" using try_tushare_unusable [of cfg ext w] t by simp
    then show ?thesis using False g n cs by (simp add: store_and_check_None)
  qed
next
  assume m: "provider cfg = ''rqdata''"
  obtain r1 w1 where t: "try_rqdata cfg ext w = (r1, w1)" by (cases "try_rqdata cfg ext w")
  obtain cs where cs: "calls w1 = calls w @ cs" "list_all (\<lambda>c. backend_of_call c = RQData) cs"
    using try_rqdata_calls [of cfg ext w] t by auto
  have g: "get_data_provider cfg ext w = store_and_check ''rqdata'' (r1, w1)"
    using m fresh t by (simp add: get_data_provider_def resolve_def)
  have n: "new_calls w (w1\<lparr>provider_instance := r1\<rparr>) = cs"
    using cs by (simp add: new_calls_def)
  show "\<exists>r w'. get_data_provider cfg ext w = (r, w')
      \<and> (rqdata_usable cfg ext \<longrightarrow> (\<exists>p. r = Inr p \<and> backend_of p = RQData))
      \<and> (\<not> rqdata_usable cfg ext \<longrightarrow>
            r = Inl (RuntimeError ''Could not initialize data provider: rqdata''))
      \<and> list_all (\<lambda>c. backend_of_call c = RQData) (new_calls w w')"
  proof (cases "rqdata_usable cfg ext")
    case True
    then obtain i where "r1 = Some (RQDataProvider i)"
      using try_rqdata_usable [of cfg ext w] t by auto
    then show ?thesis using True g n cs by (simp add: store_and_check_Some)
  next
    case False
    then have "r1 = None" using try_rqdata_unusable [of cfg ext w] t by simp
    then show ?thesis using False g n cs by (simp add: store_and_check_None)
  qed
next
  assume m: "provider cfg = ''akshare''"
  then show "\<exists>p w'. get_data_provider cfg ext w = (Inr p, w')
      \<and> backend_of p = Akshare \<and> new_calls w w' = []"
    using fresh
    by (simp add: get_data_provider_def resolve_def try_akshare_eq store_and_check_Some
        new_calls_def)
next
  assume "provider cfg \<noteq> ''auto'' \<and> provider cfg \<noteq> ''tushare'' \<and> provider cfg \<noteq> ''rqdata''
            \<and> provider cfg \<noteq> ''akshare''"
  then show "get_data_provider cfg ext w =
      (Inl (ValueError (''Unknown data provider: '' @ provider cfg)), w)"
    using fresh by (simp add: get_data_provider_def resolve_def)
qed

theorem explicit_mode_no_fallback_witness:
  "provider_instance fresh_process = None
   \<and> (\<exists>w'. get_data_provider (full_config ''tushare'') all_down fresh_process =
         (Inl (RuntimeError ''Could not initialize data provider: tushare''), w')
         \<and> list_all (\<lambda>c. backend_of_call c = Tushare) (new_calls fresh_process w'))
   \<and> (\<exists>p w'. get_data_provider (full_config ''rqdata'') healthy fresh_process = (Inr p, w')
         \<and> backend_of p = RQData
         \<and> list_all (\<lambda>c. backend_of_call c = RQData) (new_calls fresh_process w'))
   \<and> (\<exists>p w'. get_data_provider (full_config ''akshare'') all_down fresh_process = (Inr p, w')
         \<and> backend_of p = Akshare \<and> new_calls fresh_process w' = [])
   \<and> get_data_provider (full_config ''wind'') healthy fresh_process =
         (Inl (ValueError ''Unknown data provider: wind''), fresh_process)"
proof -
  have f: "provider_instance fresh_process = None" by (simp add: fresh_process_def)
  have m: "provider (full_config ''tushare'') = ''tushare''"
    "provider (full_config ''rqdata'') = ''rqdata''"
    "provider (full_config ''akshare'') = ''akshare''"
    "provider (full_config ''wind'') = ''wind''" by (simp_all add: full_config_def)
  have u: "\<not> tushare_usable (full_config ''tushare'') all_down"
    "rqdata_usable (full_config ''rqdata'') healthy" by (simp_all add: demo_defs)
  show ?thesis
    using f explicit_mode_no_fallback [OF f, of "full_config ''tushare''" all_down]
      explicit_mode_no_fallback [OF f, of "full_config ''rqdata''" healthy]
      explicit_mode_no_fallback [OF f, of "full_config ''akshare''" all_down]
      explicit_mode_no_fallback [OF f, of "full_config ''wind''" healthy]
    unfolding m using u
    by auto
qed

text \<open>
  C4. Once a call has returned a provider, every later call returns that same instance
  (same object identity) and leaves the process state as it was: no print, no
  construction, no library call, whatever the configuration and the health of the
  backends have become in the meantime.
\<close>

theorem cached_instance_returned:
  assumes "get_data_provider cfg ext w = (Inr p, w')"
  shows "get_data_provider cfg' ext' w' = (Inr p, w')"
proof -
  have "provider_instance w' = Some p"
    using get_data_provider_result [OF assms] by simp
  then show ?thesis by (simp add: get_data_provider_def)
qed

theorem cached_instance_returned_witness:
  "get_data_provider (full_config ''akshare'') healthy fresh_process =
     (Inr (AkshareProvider 0), akshare_cached)
   \<and> get_data_provider (full_config ''tushare'') all_down akshare_cached =
     (Inr (AkshareProvider 0), akshare_cached)
   \<and> get_data_provider (full_config ''wind'') healthy akshare_cached =
     (Inr (AkshareProvider 0), akshare_cached)"
proof -
  have first: "get_data_provider (full_config ''akshare'') healthy fresh_process =
      (Inr (AkshareProvider 0), akshare_cached)"
    by (simp add: get_data_provider_def resolve_def try_akshare_eq store_and_check_Some
        full_config_def fresh_process_def akshare_cached_def)
  show ?thesis
    using first cached_instance_returned [OF first, of "full_config ''tushare''" all_down]
      cached_instance_returned [OF first, of "full_config ''wind''" healthy]
    by simp
qed

text \<open>
  C10. A call that fails leaves \<open>_provider_instance\<close> unset, so the next call runs the
  whole selection again (it equals \<open>resolve\<close> on the state the failure left); and
  the cache holds an instance only when the call returned that instance.
\<close>

theorem failed_selection_not_cached:
  assumes "get_data_provider cfg ext w = (r, w')"
  shows "(\<forall>e. r = Inl e \<longrightarrow>
            provider_instance w' = None
            \<and> get_data_provider cfg' ext' w' = resolve cfg' ext' w')
       \<and> (\<forall>p. provider_instance w' = Some p \<longrightarrow> r = Inr p)"
proof -
  note res = get_data_provider_result [OF assms]
  have "provider_instance w' = Some p \<Longrightarrow> r = Inr p" for p
    using res by (cases r) auto
  moreover have "r = Inl e \<Longrightarrow> get_data_provider cfg' ext' w' = resolve cfg' ext' w'" for e
    using res by (simp add: get_data_provider_def)
  ultimately show ?thesis using res by blast
qed

theorem failed_selection_not_cached_witness:
  "get_data_provider (full_config ''tushare'') all_down fresh_process =
     (Inl (RuntimeError ''Could not initialize data provider: tushare''), tushare_failed)
   \<and> provider_instance tushare_failed = None
   \<and> get_data_provider (full_config ''tushare'') healthy tushare_failed =
       resolve (full_config ''tushare'') healthy tushare_failed
   \<and> (\<exists>w'. get_data_provider (full_config ''tushare'') healthy tushare_failed =
         (Inr (TushareProvider 0 ''tok''), w'))"
proof -
  have first: "get_data_provider (full_config ''tushare'') all_down fresh_process =
      (Inl (RuntimeError ''Could not initialize data provider: tushare''), tushare_failed)"
    by (simp add: get_data_provider_def resolve_def try_tushare_def store_and_check_None
        full_config_def fresh_process_def tushare_failed_def all_down_def Let_def
        py_print_def record_call_def)
  have again: "\<exists>w'. resolve (full_config ''tushare'') healthy tushare_failed =
      (Inr (TushareProvider 0 ''tok''), w')"
    by (simp add: resolve_def try_tushare_def store_and_check_Some
        full_config_def tushare_failed_def healthy_def Let_def
        py_print_def record_call_def allocate_def)
  show ?thesis
    using first again
      failed_selection_not_cached [OF first, of "full_config ''tushare''" healthy]
    by simp
qed

section \<open>Properties of the orchestrator\<close>

lemma add_context_None: "add_context msg ks ags k = None \<longleftrightarrow> ags k = None"
  by (induction ks arbitrary: ags) (auto split: option.splits)

lemma seeded_None: "seeded env bir code k = None \<longleftrightarrow> agents env k = None"
  by (simp add: seeded_def add_context_None)

lemma dispatch_none:
  "\<forall>k \<in> fst ` set m. ags k = None \<Longrightarrow> dispatch m ags = []"
  by (induction m) auto










lemmas run_eval = run_def run_try_def seeded_def task_def task_of_def formatted_def
  research_environment_def default_analysis_mapping_def analyst_def fetch_failed_def
  fetch_ok_def stock_info_message_def dict_get_def Let_def

text \<open>
  C1 fails on the code. With only the risk-control agent registered, one task is
  dispatched (for \<open>risk_control_agent\<close>; none for \<open>sentiment_agent\<close>), and \<open>run\<close> stores
  its outcome under \<open>sentiment\<close>, the result key of the first pair of the mapping; there
  is no entry under \<open>risk\<close>. The loop zips the whole mapping with the results of the
  dispatched tasks only.
\<close>

theorem partial_registry_misfiled:
  "task_of only_risk fetch_failed ''600519'' ''risk_control_agent''
     = Some (Returned (PyStr ''risk report''))
   \<and> task_of only_risk fetch_failed ''600519'' ''sentiment_agent'' = None
   \<and> fst (run only_risk fetch_failed ''600519'')
     = [(''sentiment'', PyStr ''risk report''), (''stock_code'', PyStr ''600519'')]
   \<and> map_of (fst (run only_risk fetch_failed ''600519'')) ''risk'' = None"
  by (simp add: only_risk_def run_eval)




text \<open>
  C8. When no agent is registered under any key of the mapping (in particular when the
  registry is empty), \<open>run\<close> returns exactly the two-entry object with the fixed error
  text and the stock code, for every stock code and every outcome of the basic-info
  fetch.
\<close>

theorem no_specialists_error_object:
  assumes "\<forall>k \<in> fst ` set (analysis_mapping env). agents env k = None"
  shows "fst (run env bir code) =
     [(''error'', PyStr ''No specialist agents completed successfully''),
      (''stock_code'', PyStr code)]"
proof -
  have "\<forall>k \<in> fst ` set (analysis_mapping env). seeded env bir code k = None"
    using assms by (simp add: seeded_None)
  then have "dispatch (analysis_mapping env) (seeded env bir code) = []"
    by (rule dispatch_none)
  then show ?thesis by (simp add: run_def run_try_def)
qed

theorem no_specialists_error_object_witness:
  "agents (research_environment []) = Map.empty
   \<and> fst (run (research_environment []) fetch_ok ''600519'') =
     [(''error'', PyStr ''No specialist agents completed successfully''),
      (''stock_code'', PyStr ''600519'')]"
proof -
  have e: "agents (research_environment []) = Map.empty"
    by (simp add: research_environment_def)
  then have "\<forall>k \<in> fst ` set (analysis_mapping (research_environment [])).
      agents (research_environment []) k = None" by simp
  from no_specialists_error_object [OF this, of fetch_ok "''600519''"] e
  show ?thesis by simp
qed

section \<open>Properties of the admission gate\<close>

lemma running_after_enter:
  "i < length xs \<Longrightarrow> xs ! i = Waiting \<Longrightarrow>
     length (filter (\<lambda>s. s = Running) (xs[i := Running]))
       = Suc (length (filter (\<lambda>s. s = Running) xs))"
proof (induction xs arbitrary: i)
  case Nil
  then show ?case by simp
next
  case (Cons x xs)
  then show ?case by (cases i) auto
qed

lemma running_after_leave:
  "i < length xs \<Longrightarrow> xs ! i = Running \<Longrightarrow>
     Suc (length (filter (\<lambda>s. s = Running) (xs[i := Done])))
       = length (filter (\<lambda>s. s = Running) xs)"
proof (induction xs arbitrary: i)
  case Nil
  then show ?case by simp
next
  case (Cons x xs)
  then show ?case by (cases i) auto
qed

lemma fire_keeps_total:
  assumes "fire e g = Some g'"
  shows "permits g' + live g' = permits g + live g"
proof (cases e)
  case (Enter i)
  with assms have c: "i < length (states g)" "states g ! i = Waiting" "0 < permits g"
    and g': "g' = g\<lparr>permits := permits g - 1, states := (states g)[i := Running]\<rparr>"
    by (auto split: if_splits)
  show ?thesis using c running_after_enter [OF c(1,2)] by (simp add: g' live_def)
next
  case (Leave i)
  with assms have c: "i < length (states g)" "states g ! i = Running"
    and g': "g' = g\<lparr>permits := permits g + 1, states := (states g)[i := Done]\<rparr>"
    by (auto split: if_splits)
  show ?thesis using running_after_leave [OF c] by (simp add: g' live_def)
qed

lemma fire_all_keeps_total:
  "fire_all es g = Some g' \<Longrightarrow> permits g' + live g' = permits g + live g"
proof (induction es arbitrary: g)
  case Nil
  then show ?case by simp
next
  case (Cons e es)
  then obtain g1 where f: "fire e g = Some g1" and r: "fire_all es g1 = Some g'"
    by (auto split: option.splits)
  show ?case using Cons.IH [OF r] fire_keeps_total [OF f] by simp
qed

lemma launch_total: "permits (launch env bir code) + live (launch env bir code) = 3"
  by (simp add: launch_def live_def)

text \<open>
  C9. In every state the gate can reach from the start of \<open>gather\<close>, by any sequence
  of tasks entering and leaving, at most 3 tasks are inside their specialist's \<open>run\<close>,
  however many tasks were dispatched: permits and running tasks always add up to 3.
\<close>

theorem at_most_three_running:
  assumes "fire_all es (launch env bir code) = Some g"
  shows "live g \<le> 3"
  using fire_all_keeps_total [OF assms] launch_total [of env bir code] by simp

theorem at_most_three_running_witness:
  "fire_all [Enter 0, Enter 1, Enter 2, Leave 1, Enter 3]
     (launch six_specialists fetch_failed ''600519'')
     = Some \<lparr>permits = 0, states = [Running, Done, Running, Running, Waiting, Waiting]\<rparr>
   \<and> live \<lparr>permits = 0, states = [Running, Done, Running, Running, Waiting, Waiting]\<rparr> \<le> 3
   \<and> fire_all [Enter 0, Enter 1, Enter 2, Enter 3]
     (launch six_specialists fetch_failed ''600519'') = None"
proof -
  have r: "fire_all [Enter 0, Enter 1, Enter 2, Leave 1, Enter 3]
      (launch six_specialists fetch_failed ''600519'')
      = Some \<lparr>permits = 0, states = [Running, Done, Running, Running, Waiting, Waiting]\<rparr>"
    by (simp add: launch_def six_specialists_def run_eval)
  have n: "fire_all [Enter 0, Enter 1, Enter 2, Enter 3]
      (launch six_specialists fetch_failed ''600519'') = None"
    by (simp add: launch_def six_specialists_def run_eval)
  show ?thesis using r n at_most_three_running [OF r] by simp
qed

end
